theory Spec2Isabelle
  imports Complex_Main "HOL-Library.Word" "HOL-Library.AList"
begin

section \<open>Values shared by the radar scope and the SRS client\<close>

text \<open>
  Go's \<open>time.Time\<close> is modelled as the number of nanoseconds since Go's zero instant
  (January 1 of year 1, 00:00 UTC), so that \<open>t.IsZero()\<close> is \<open>t = 0\<close>,
  \<open>t.Before(u)\<close> is \<open>t < u\<close>; \<open>time.Duration\<close> is a count of nanoseconds.
  The range limits of Go's representation (hundreds of years for a Duration, billions
  for a Time) are written out only where the source relies on them (\<open>Sub\<close> saturates).
\<close>

type_synonym Time = int
type_synonym Duration = int

definition Second :: Duration where
  "Second = 1000000000"

definition Minute :: Duration where
  "Minute = 60 * Second"

definition IsZero_time :: "Time \<Rightarrow> bool" where
  "IsZero_time t = (t = 0)"

definition Before :: "Time \<Rightarrow> Time \<Rightarrow> bool" where
  "Before t u = (t < u)"

definition Add :: "Time \<Rightarrow> Duration \<Rightarrow> Time" where
  "Add t d = t + d"

definition maxDuration :: Duration where
  "maxDuration = 2 ^ 63 - 1"

definition minDuration :: Duration where
  "minDuration = - (2 ^ 63)"

definition Sub :: "Time \<Rightarrow> Time \<Rightarrow> Duration" where
  \<comment> \<open>\<open>t.Sub(u)\<close>: the difference, saturated to the range of an int64 Duration.\<close>
  "Sub t u = max minDuration (min maxDuration (t - u))"

text \<open>
  \<open>orb.Point\<close> is a pair of float64 coordinates, longitude first. The functions below
  only store, load and compare coordinates; no arithmetic is done on them, so a
  coordinate is modelled as a real number.
\<close>

type_synonym orb_Point = "real \<times> real"

definition Lon :: "orb_Point \<Rightarrow> real" where
  "Lon p = fst p"

definition Lat :: "orb_Point \<Rightarrow> real" where
  "Lat p = snd p"

definition zero_Point :: orb_Point where
  \<comment> \<open>Go's \<open>orb.Point{}\<close>.\<close>
  "zero_Point = (0, 0)"

definition IsZero :: "orb_Point \<Rightarrow> bool" where
  \<comment> \<open>Modelled from the spec: \<open>spatial.IsZero\<close> is not under src/. "A position is zero
      when both coordinates are exactly zero."\<close>
  "IsZero p = (Lon p = 0 \<and> Lat p = 0)"

datatype Coalition = Red | Blue | Neutral

datatype ContactCategory = Aircraft | FixedWing | RotaryWing | SurfaceToAirMissile

section \<open>Trackfiles\<close>

text \<open>
  The package \<open>trackfiles\<close> is not under src/. Its types are modelled from the spec:
  Labels are "a stable unit ID (unsigned 64-bit), a display name, an ACMI-format aircraft
  short-name, and coalition membership"; a Frame is "position, altitude, heading (true),
  and acquisition time"; a Trackfile "owns a Labels record and a bounded, time-ordered
  sequence of Frames", the most recent one first.
\<close>

record Labels =
  ID :: "64 word"
  Name :: string
  ACMIName :: string
  Coalition :: Coalition

record Frame =
  Time :: Time
  Point :: orb_Point
  Altitude :: real
  Heading :: real

record Trackfile =
  Contact :: Labels
  Track :: "Frame list"

definition zero_Frame :: Frame where
  \<comment> \<open>Go's \<open>Frame{}\<close>.\<close>
  "zero_Frame = \<lparr>Time = 0, Point = zero_Point, Altitude = 0, Heading = 0\<rparr>"

definition NewTrackfile :: "Labels \<Rightarrow> Trackfile" where
  \<comment> \<open>Modelled from the spec: \<open>trackfiles.NewTrackfile\<close> is not under src/. A trackfile
      is created from the labels of the first sighting, with no frame yet.\<close>
  "NewTrackfile labels = \<lparr>Contact = labels, Track = []\<rparr>"

definition LastKnown :: "Trackfile \<Rightarrow> Frame" where
  \<comment> \<open>Modelled from the spec: \<open>Trackfile.LastKnown\<close> is not under src/. It "returns the
      most recent frame", and frames are inserted at the front; a trackfile without a
      frame gives Go's zero Frame, whose time is the zero time the garbage collection
      tests for.\<close>
  "LastKnown trackfile = (case Track trackfile of [] \<Rightarrow> zero_Frame | frame # _ \<Rightarrow> frame)"

section \<open>Encyclopedia\<close>

text \<open>
  The aircraft table and \<open>encyclopedia.GetAircraftData\<close> are not under src/: the lookup
  is a parameter \<open>GetAircraftData\<close> of the functions that call it, \<open>None\<close> standing for
  Go's \<open>ok = false\<close>. The record is modelled from the spec: an entry carries "at
  minimum a category", and src/ reads its \<open>ACMIShortName\<close>.
\<close>

record encyclopedia_Aircraft =
  ACMIShortName :: string
  Category :: ContactCategory

section \<open>Radar scope: validity and matching\<close>

text \<open>
  \<open>Trackfile.Speed\<close> (a great-circle distance over a time difference) is not under
  src/ and \<open>unit.Knot\<close> is a constant of an external library: both are parameters,
  \<open>Speed\<close> in the library's unit of speed and \<open>Knot\<close> one knot in that unit.
\<close>

definition isValidTrack :: "real \<Rightarrow> (Trackfile \<Rightarrow> real) \<Rightarrow> Trackfile \<Rightarrow> bool" where
  "isValidTrack Knot Speed trackfile =
     (let isValidPosition = \<not> IsZero (Point (LastKnown trackfile));
          isAboveSpeedFilter = Speed trackfile > 50 * Knot;
          isValid = isValidPosition \<and> isAboveSpeedFilter
      in isValid)"

definition isMatch ::
  "real \<Rightarrow> (Trackfile \<Rightarrow> real) \<Rightarrow> (string \<Rightarrow> encyclopedia_Aircraft option) \<Rightarrow>
   Trackfile \<Rightarrow> Coalition \<Rightarrow> ContactCategory \<Rightarrow> bool" where
  "isMatch Knot Speed GetAircraftData trackfile coalition filter' =
     (if Coalition (Contact trackfile) \<noteq> coalition then False
      else if \<not> isValidTrack Knot Speed trackfile then False
      else (case GetAircraftData (ACMIName (Contact trackfile)) of
              None \<Rightarrow> True
            | Some data \<Rightarrow> Category data = filter' \<or> filter' = Aircraft))"

section \<open>Radar scope: state\<close>

text \<open>
  The package \<open>sim\<close> is not under src/; its event types are modelled from the spec:
  \<open>Started{mission_timestamp}\<close> and \<open>Updated{labels, frame}\<close>.
\<close>

record Started =
  MissionTimestamp :: Time

record Updated =
  Labels :: Labels
  Frame :: Frame

text \<open>
  Trackfiles are handled through pointers. A pointer is an address into \<open>heap\<close>, the
  store of the trackfile objects; \<open>next_addr\<close> is the first address never allocated.
\<close>

type_synonym addr = nat

text \<open>
  The contact database (\<open>contactDatabase\<close>, \<open>newContactDatabase\<close> and its methods) is
  not under src/. Modelled from the spec: "a mapping from unit ID to Trackfile" with the
  operations \<open>get_by_id\<close>, \<open>set\<close>, \<open>delete\<close>, \<open>reset\<close> and \<open>values\<close>, where
  \<open>values\<close> is a snapshot in which "iteration yields every live trackfile exactly once".
  The mapping is an association list from unit IDs to trackfile pointers.
\<close>

type_synonym contactDatabase = "(64 word \<times> addr) list"

definition newContactDatabase :: contactDatabase where
  "newContactDatabase = []"

definition contacts_getByID :: "contactDatabase \<Rightarrow> 64 word \<Rightarrow> addr option" where
  "contacts_getByID db unitID = map_of db unitID"

definition contacts_set :: "(addr \<Rightarrow> Trackfile) \<Rightarrow> addr \<Rightarrow> contactDatabase \<Rightarrow> contactDatabase" where
  \<comment> \<open>\<open>set(trackfile)\<close>: stored under the unit ID of the trackfile's own labels.\<close>
  "contacts_set h trackfile db = AList.update (ID (Contact (h trackfile))) trackfile db"

definition contacts_delete :: "64 word \<Rightarrow> contactDatabase \<Rightarrow> contactDatabase" where
  "contacts_delete unitID db = AList.delete unitID db"

definition contacts_values :: "contactDatabase \<Rightarrow> addr list" where
  "contacts_values db = map snd db"

definition contacts_reset :: "contactDatabase \<Rightarrow> contactDatabase" where
  "contacts_reset db = []"

text \<open>
  \<open>bullseyes\<close> is a \<open>sync.Map\<close>: its values have the dynamic type \<open>any\<close>, and
  \<open>Bullseye\<close> asserts the type \<open>orb.Point\<close> on what it loads, which panics on a value
  of another type.
\<close>

datatype any = AnyPoint orb_Point | AnyOther

datatype panic = TypeAssertionPanic

text \<open>
  What the scope does to the outside, in order: the log lines it writes (level and
  message; the structured fields are left out), and the invocations of a registered
  callback, \<open>Call\<close> with the callback and the trackfile it is given. A callback is
  known by its name; \<open>None\<close> is Go's nil function.
\<close>

datatype level = InfoLevel | WarnLevel | ErrorLevel

type_synonym callback = string

datatype effect = Log level string | Call callback Trackfile

record scope =
  missionTime :: Time
  bullseyes :: "Coalition \<rightharpoonup> any"
  contacts :: contactDatabase
  fadedCallback :: "callback option"
  removalCallback :: "callback option"
  center :: orb_Point
  mandatoryThreatRadius :: real
  heap :: "addr \<Rightarrow> Trackfile"
  next_addr :: addr
  outputs :: "effect list"

definition New :: "real \<Rightarrow> scope" where
  \<comment> \<open>The channels and the unused coalition argument are not part of the state; every
      field \<open>New\<close> does not set has Go's zero value. No trackfile is allocated: the
      cells of the heap hold a placeholder.\<close>
  "New radius =
     \<lparr>missionTime = 0, bullseyes = Map.empty, contacts = newContactDatabase,
      fadedCallback = None, removalCallback = None, center = zero_Point,
      mandatoryThreatRadius = radius,
      heap = (\<lambda>_. NewTrackfile \<lparr>ID = 0, Name = [], ACMIName = [], Coalition = Red\<rparr>),
      next_addr = 0, outputs = []\<rparr>"

section \<open>Radar scope: operations\<close>

definition SetMissionTime :: "Time \<Rightarrow> scope \<Rightarrow> scope" where
  "SetMissionTime t s = s\<lparr>missionTime := t\<rparr>"

definition Bullseye :: "scope \<Rightarrow> Coalition \<Rightarrow> panic + orb_Point" where
  "Bullseye s coalition =
     (case bullseyes s coalition of
        None \<Rightarrow> Inr zero_Point
      | Some p \<Rightarrow> (case p of AnyPoint q \<Rightarrow> Inr q | AnyOther \<Rightarrow> Inl TypeAssertionPanic))"

definition SetBullseye :: "orb_Point \<Rightarrow> Coalition \<Rightarrow> scope \<Rightarrow> panic + scope" where
  "SetBullseye bullseye coalition s =
     (case Bullseye s coalition of
        Inl e \<Rightarrow> Inl e
      | Inr current \<Rightarrow>
          Inr ((if Lon current \<noteq> Lon bullseye \<or> Lat current \<noteq> Lat bullseye
                then s\<lparr>outputs := outputs s @ [Log InfoLevel ''updating bullseye'']\<rparr>
                else s)
               \<lparr>bullseyes := (bullseyes s)(coalition \<mapsto> AnyPoint bullseye)\<rparr>))"

text \<open>
  \<open>Trackfile.Update\<close> is not under src/, and the spec leaves its retention of old frames
  open: it is the parameter \<open>Update\<close> of \<open>handleUpdate\<close>, from the frame and the
  trackfile to the updated trackfile. The call mutates the object the database's
  pointer refers to.
\<close>

definition handleUpdate :: "(Frame \<Rightarrow> Trackfile \<Rightarrow> Trackfile) \<Rightarrow> Updated \<Rightarrow> scope \<Rightarrow> scope" where
  "handleUpdate Update update s =
     (case contacts_getByID (contacts s) (ID (Labels update)) of
        Some trackfile \<Rightarrow>
          s\<lparr>heap := (heap s)(trackfile := Update (Frame update) (heap s trackfile))\<rparr>
      | None \<Rightarrow>
          (let trackfile = next_addr s;
               h = (heap s)(trackfile := NewTrackfile (Labels update))
           in s\<lparr>heap := h, next_addr := Suc trackfile,
                contacts := contacts_set h trackfile (contacts s),
                outputs := outputs s @ [Log InfoLevel ''created new trackfile'']\<rparr>))"

definition gc_step :: "addr \<Rightarrow> scope \<Rightarrow> scope" where
  \<comment> \<open>The body of the loop of \<open>handleGarbageCollection\<close>, for one trackfile of the
      snapshot.\<close>
  "gc_step trackfile s =
     (let lastSeen = Time (LastKnown (heap s trackfile));
          isOld = Before lastSeen (Add (missionTime s) (-1 * Minute));
          isNotZero = \<not> IsZero_time lastSeen
      in if isNotZero \<and> isOld
         then s\<lparr>contacts := contacts_delete (ID (Contact (heap s trackfile))) (contacts s),
                outputs := outputs s @ [Log InfoLevel ''removed aged out trackfile'']\<rparr>
         else s)"

definition handleGarbageCollection :: "scope \<Rightarrow> scope" where
  "handleGarbageCollection s = fold gc_step (contacts_values (contacts s)) s"

text \<open>
  Go errors are values with a message; \<open>fmt.Errorf\<close> with the verb \<open>%w\<close> gives an
  error that keeps the one it wraps, and whose message is the format's text followed by
  the wrapped error's message.
\<close>

datatype error = errorString string | wrapError string error

fun Error :: "error \<Rightarrow> string" where
  "Error (errorString msg) = msg"
| "Error (wrapError msg err) = msg"

fun Unwrap :: "error \<Rightarrow> error option" where
  "Unwrap (errorString msg) = None"
| "Unwrap (wrapError msg err) = Some err"

definition errors_New :: "string \<Rightarrow> error" where
  "errors_New msg = errorString msg"

definition fmt_Errorf_w :: "string \<Rightarrow> error \<Rightarrow> error" where
  \<comment> \<open>\<open>fmt.Errorf(prefix + "%w", err)\<close> for a non-nil \<open>err\<close>.\<close>
  "fmt_Errorf_w prefix err = wrapError (prefix @ Error err) err"

definition bearings_Declination ::
  "(orb_Point \<Rightarrow> Time \<Rightarrow> error + real) \<Rightarrow> orb_Point \<Rightarrow> Time \<Rightarrow> real \<times> error option" where
  \<comment> \<open>Modelled from the spec: \<open>bearings.Declination\<close> is not under src/. The declination
      "is computed from the World Magnetic Model (or equivalent geomagnetic model)", the
      parameter \<open>model\<close>; "if the model returns an error, log and fall back to
      declination = 0". The scope's \<open>Declination\<close> returns the angle it gets from here as
      it is, so the zero of the fallback is the angle returned here beside the error.\<close>
  "bearings_Declination model p t =
     (case model p t of Inl err \<Rightarrow> (0, Some err) | Inr declination \<Rightarrow> (declination, None))"

definition Declination ::
  "(orb_Point \<Rightarrow> Time \<Rightarrow> error + real) \<Rightarrow> orb_Point \<Rightarrow> scope \<Rightarrow> real \<times> scope" where
  "Declination model p s =
     (case bearings_Declination model p (missionTime s) of
        (declination, err) \<Rightarrow>
          (declination,
           if err \<noteq> None
           then s\<lparr>outputs := outputs s @ [Log ErrorLevel ''failed to get declination'']\<rparr>
           else s))"

section \<open>Radar scope: histories\<close>

text \<open>
  What happens to a scope, in the order it takes effect: the cases of the \<open>select\<close> in
  \<open>Run\<close> whose handlers are under src/ (a mission start, an update, a tick of the
  garbage-collection ticker), and the calls of \<open>SetBullseye\<close> and \<open>SetMissionTime\<close>.
  The recenter tick and the fades call \<open>updateCenterPoint\<close> and \<open>collectFaded\<close>, which
  are not under src/, and are left out. A panic ends the history.
\<close>

datatype event =
    starts Started
  | updates Updated
  | gcTicker
  | SetBullseye_call orb_Point Coalition
  | SetMissionTime_call Time

fun react :: "(Frame \<Rightarrow> Trackfile \<Rightarrow> Trackfile) \<Rightarrow> event \<Rightarrow> scope \<Rightarrow> panic + scope" where
  "react Update (starts start) s =
     Inr (s\<lparr>contacts := contacts_reset (contacts s),
            outputs := outputs s @
              [Log InfoLevel ''clearing all trackfiles due to mission (re)start'']\<rparr>)"
| "react Update (updates update) s = Inr (handleUpdate Update update s)"
| "react Update gcTicker s = Inr (handleGarbageCollection s)"
| "react Update (SetBullseye_call bullseye coalition) s = SetBullseye bullseye coalition s"
| "react Update (SetMissionTime_call t) s = Inr (SetMissionTime t s)"

fun history :: "(Frame \<Rightarrow> Trackfile \<Rightarrow> Trackfile) \<Rightarrow> event list \<Rightarrow> scope \<Rightarrow> panic + scope" where
  "history Update [] s = Inr s"
| "history Update (e # es) s =
     (case react Update e s of Inl p \<Rightarrow> Inl p | Inr s' \<Rightarrow> history Update es s')"

section \<open>SRS client\<close>

text \<open>
  A Go slice is nil or holds a sequence of elements; \<open>make([]T, 0)\<close> is empty and not
  nil, \<open>range\<close> over a nil slice runs no iteration, and \<open>append\<close> never returns nil
  once it has added an element.
\<close>

datatype 'a slice = NilSlice | Slice "'a list"

fun elems :: "'a slice \<Rightarrow> 'a list" where
  "elems NilSlice = []"
| "elems (Slice xs) = xs"

definition make0 :: "'a slice" where
  "make0 = Slice []"

definition append1 :: "'a slice \<Rightarrow> 'a \<Rightarrow> 'a slice" where
  "append1 s x = Slice (elems s @ [x])"

text \<open>
  The packages \<open>simpleradio/types\<close>, \<open>data\<close> and \<open>audio\<close> are not under src/. Modelled
  from the spec: a radio is "(frequency in hertz, modulation \<in> {AM, FM, HQ, disabled})",
  and a client advertises a list of radios. The two clients are interfaces: each is
  modelled by what its observers return at the time of the call.
\<close>

datatype Modulation = AM | FM | HQ | Disabled

record Radio =
  Frequency :: real
  Modulation :: Modulation

record RadioInfo =
  Radios :: "Radio slice"

record ClientInfo =
  Name :: string
  RadioInfo :: RadioInfo

record DataClient =
  Info :: ClientInfo

record AudioClient =
  LastPing :: Time

record client =
  dataClient :: DataClient
  audioClient :: AudioClient

record RadioFrequency =
  Frequency :: real
  Modulation :: Modulation

definition Frequencies :: "real \<Rightarrow> client \<Rightarrow> RadioFrequency slice" where
  \<comment> \<open>\<open>Hertz\<close> is \<open>unit.Hertz\<close>, a constant of an external library.\<close>
  "Frequencies Hertz c =
     (let info = Info (dataClient c)
      in fold (\<lambda>radio frequencies.
                 (let frequency = \<lparr>Frequency = Radio.Frequency radio * Hertz,
                                   Modulation = Radio.Modulation radio\<rparr>
                  in append1 frequencies frequency))
              (elems (Radios (RadioInfo info))) make0)"

text \<open>
  The supervisor loop of \<open>client.Run\<close>. Which case of the \<open>select\<close> runs next is the
  environment's choice: the loop is a function of the sequence of cases taken, each with
  the value it reads (\<open>ctx.Err()\<close>; the error received from \<open>errorChan\<close>; for a tick,
  the clock and the audio client's \<open>LastPing\<close> at that moment). \<open>None\<close> is a loop that
  has not returned when the sequence ends. The goroutines that \<open>Run\<close> starts before the
  loop, its wait for the data client to be ready, and its log lines are not modelled.
\<close>

datatype select_case =
    ctx_Done error
  | errorChan_recv error
  | ticker_C Time Time

definition Since :: "Time \<Rightarrow> Time \<Rightarrow> Duration" where
  \<comment> \<open>\<open>time.Since(t)\<close> when the clock reads \<open>now\<close>.\<close>
  "Since now t = Sub now t"

fun Run :: "select_case list \<Rightarrow> error option" where
  "Run [] = None"
| "Run (ctx_Done ctx_Err # rest) =
     Some (fmt_Errorf_w ''stopping client due to context cancelation: '' ctx_Err)"
| "Run (errorChan_recv err # rest) = Some (fmt_Errorf_w ''client error: '' err)"
| "Run (ticker_C now lastPing # rest) =
     (if Since now lastPing > 1 * Minute
      then Some (errors_New ''stopped receiving pings from SRS data client'')
      else Run rest)"

definition quiet_tick :: "select_case \<Rightarrow> bool" where
  \<comment> \<open>A case of the \<open>select\<close> after which the loop goes on: a tick that finds the last
      ping at most a minute old.\<close>
  "quiet_tick c =
     (case c of ticker_C now lastPing \<Rightarrow> Since now lastPing \<le> 1 * Minute | _ \<Rightarrow> False)"

section \<open>Properties of validity and matching\<close>

text \<open>
  C1: a trackfile is valid exactly when its last-known position is not the zero point
  (0,0) and its speed exceeds 50 knots; in particular a contact at exactly 50 knots is
  not valid, and a contact whose last-known position is exactly (0,0) is not valid.
\<close>

theorem isValidTrack_iff:
  "(isValidTrack Knot Speed t \<longleftrightarrow>
      Point (LastKnown t) \<noteq> (0, 0) \<and> Speed t > 50 * Knot)
   \<and> (Speed t = 50 * Knot \<longrightarrow> \<not> isValidTrack Knot Speed t)
   \<and> (Point (LastKnown t) = (0, 0) \<longrightarrow> \<not> isValidTrack Knot Speed t)"
  by (cases "Point (LastKnown t)") (simp add: isValidTrack_def IsZero_def Lon_def Lat_def)

theorem isValidTrack_iff_witness:
  "isValidTrack 1 (\<lambda>t. 60)
      \<lparr>Contact = \<lparr>ID = 1, Name = ''Eagle 1'', ACMIName = ''F-15C'', Coalition = Blue\<rparr>,
       Track = [\<lparr>Time = 1000, Point = (30, 40), Altitude = 8000, Heading = 90\<rparr>]\<rparr>
   \<and> \<not> isValidTrack 1 (\<lambda>t. 50)
      \<lparr>Contact = \<lparr>ID = 1, Name = ''Eagle 1'', ACMIName = ''F-15C'', Coalition = Blue\<rparr>,
       Track = [\<lparr>Time = 1000, Point = (30, 40), Altitude = 8000, Heading = 90\<rparr>]\<rparr>
   \<and> \<not> isValidTrack 1 (\<lambda>t. 60)
      \<lparr>Contact = \<lparr>ID = 1, Name = ''Eagle 1'', ACMIName = ''F-15C'', Coalition = Blue\<rparr>,
       Track = [\<lparr>Time = 1000, Point = (0, 0), Altitude = 8000, Heading = 90\<rparr>]\<rparr>"
  using isValidTrack_iff [of 1 "\<lambda>t. 60"
      "\<lparr>Contact = \<lparr>ID = 1, Name = ''Eagle 1'', ACMIName = ''F-15C'', Coalition = Blue\<rparr>,
       Track = [\<lparr>Time = 1000, Point = (30, 40), Altitude = 8000, Heading = 90\<rparr>]\<rparr>"]
    isValidTrack_iff [of 1 "\<lambda>t. 50"
      "\<lparr>Contact = \<lparr>ID = 1, Name = ''Eagle 1'', ACMIName = ''F-15C'', Coalition = Blue\<rparr>,
       Track = [\<lparr>Time = 1000, Point = (30, 40), Altitude = 8000, Heading = 90\<rparr>]\<rparr>"]
    isValidTrack_iff [of 1 "\<lambda>t. 60"
      "\<lparr>Contact = \<lparr>ID = 1, Name = ''Eagle 1'', ACMIName = ''F-15C'', Coalition = Blue\<rparr>,
       Track = [\<lparr>Time = 1000, Point = (0, 0), Altitude = 8000, Heading = 90\<rparr>]\<rparr>"]
  by (simp add: LastKnown_def)

text \<open>
  C2: a trackfile matches a query with coalition \<open>C\<close> and category filter \<open>F\<close> exactly
  when its coalition is \<open>C\<close>, it is a valid track, and its ACMI aircraft name is absent
  from the encyclopedia, or the encyclopedia's category of that aircraft is \<open>F\<close>, or
  \<open>F\<close> is the any-aircraft wildcard.
\<close>

theorem isMatch_iff:
  "isMatch Knot Speed GetAircraftData t C F \<longleftrightarrow>
     Coalition (Contact t) = C \<and> isValidTrack Knot Speed t \<and>
     (GetAircraftData (ACMIName (Contact t)) = None
      \<or> (\<exists>data. GetAircraftData (ACMIName (Contact t)) = Some data \<and> Category data = F)
      \<or> F = Aircraft)"
  by (auto simp: isMatch_def split: option.splits)

theorem isMatch_iff_witness:
  "isMatch 1 (\<lambda>t. 60) (\<lambda>name. None)
      \<lparr>Contact = \<lparr>ID = 3, Name = ''Bandit'', ACMIName = ''UNKNOWN-1'', Coalition = Red\<rparr>,
       Track = [\<lparr>Time = 1000, Point = (30, 40), Altitude = 8000, Heading = 90\<rparr>]\<rparr>
      Red RotaryWing
   \<and> \<not> isMatch 1 (\<lambda>t. 60)
      (\<lambda>name. Some \<lparr>ACMIShortName = ''UNKNOWN-1'', Category = FixedWing\<rparr>)
      \<lparr>Contact = \<lparr>ID = 3, Name = ''Bandit'', ACMIName = ''UNKNOWN-1'', Coalition = Red\<rparr>,
       Track = [\<lparr>Time = 1000, Point = (30, 40), Altitude = 8000, Heading = 90\<rparr>]\<rparr>
      Red RotaryWing"
  using isMatch_iff [of 1 "\<lambda>t. 60" "\<lambda>name. None"
      "\<lparr>Contact = \<lparr>ID = 3, Name = ''Bandit'', ACMIName = ''UNKNOWN-1'', Coalition = Red\<rparr>,
       Track = [\<lparr>Time = 1000, Point = (30, 40), Altitude = 8000, Heading = 90\<rparr>]\<rparr>"
      Red RotaryWing]
    isMatch_iff [of 1 "\<lambda>t. 60"
      "\<lambda>name. Some \<lparr>ACMIShortName = ''UNKNOWN-1'', Category = FixedWing\<rparr>"
      "\<lparr>Contact = \<lparr>ID = 3, Name = ''Bandit'', ACMIName = ''UNKNOWN-1'', Coalition = Red\<rparr>,
       Track = [\<lparr>Time = 1000, Point = (30, 40), Altitude = 8000, Heading = 90\<rparr>]\<rparr>"
      Red RotaryWing]
  by (simp add: isValidTrack_def LastKnown_def IsZero_def Lon_def Lat_def)

section \<open>Properties of the contact database under updates and garbage collection\<close>

text \<open>
  C5: on an update, if the database has a trackfile for the update's unit ID, the frame is
  given to that trackfile's \<open>Update\<close> and nothing else changes: the database mapping, the
  other trackfiles and the log stay as they are. If it has none, a new trackfile is
  created from the update's labels and stored under that ID; the other IDs keep their
  entries, the other trackfile objects are untouched, and the creation is logged.
\<close>

theorem handleUpdate_cases:
  "(contacts_getByID (contacts s) (ID (Labels u)) = Some a \<longrightarrow>
      handleUpdate Update u s = s\<lparr>heap := (heap s)(a := Update (Frame u) (heap s a))\<rparr>)
   \<and> (contacts_getByID (contacts s) (ID (Labels u)) = None \<longrightarrow>
        (\<exists>a. contacts_getByID (contacts (handleUpdate Update u s)) (ID (Labels u)) = Some a
            \<and> heap (handleUpdate Update u s) a = NewTrackfile (Labels u)
            \<and> (\<forall>b. b \<noteq> a \<longrightarrow> heap (handleUpdate Update u s) b = heap s b))
        \<and> (\<forall>i. i \<noteq> ID (Labels u) \<longrightarrow>
              contacts_getByID (contacts (handleUpdate Update u s)) i
                = contacts_getByID (contacts s) i)
        \<and> outputs (handleUpdate Update u s)
            = outputs s @ [Log InfoLevel ''created new trackfile''])"
proof (intro conjI impI)
  assume "contacts_getByID (contacts s) (ID (Labels u)) = Some a"
  then show "handleUpdate Update u s = s\<lparr>heap := (heap s)(a := Update (Frame u) (heap s a))\<rparr>"
    by (simp add: handleUpdate_def)
next
  assume none: "contacts_getByID (contacts s) (ID (Labels u)) = None"
  let ?a = "next_addr s"
  have "contacts_getByID (contacts (handleUpdate Update u s)) (ID (Labels u)) = Some ?a"
    using none
    by (simp add: handleUpdate_def Let_def contacts_set_def contacts_getByID_def
        NewTrackfile_def update_conv')
  moreover have "heap (handleUpdate Update u s) ?a = NewTrackfile (Labels u)"
    using none by (simp add: handleUpdate_def Let_def)
  moreover have "\<forall>b. b \<noteq> ?a \<longrightarrow> heap (handleUpdate Update u s) b = heap s b"
    using none by (simp add: handleUpdate_def Let_def)
  ultimately show "\<exists>a. contacts_getByID (contacts (handleUpdate Update u s)) (ID (Labels u)) = Some a
            \<and> heap (handleUpdate Update u s) a = NewTrackfile (Labels u)
            \<and> (\<forall>b. b \<noteq> a \<longrightarrow> heap (handleUpdate Update u s) b = heap s b)"
    by blast
  show "\<forall>i. i \<noteq> ID (Labels u) \<longrightarrow>
              contacts_getByID (contacts (handleUpdate Update u s)) i
                = contacts_getByID (contacts s) i"
    using none
    by (simp add: handleUpdate_def Let_def contacts_set_def contacts_getByID_def
        NewTrackfile_def update_conv')
  show "outputs (handleUpdate Update u s)
            = outputs s @ [Log InfoLevel ''created new trackfile'']"
    using none by (simp add: handleUpdate_def Let_def)
qed

theorem handleUpdate_cases_witness:
  "contacts_getByID (contacts ((New 0)\<lparr>contacts := [(7, 0)], next_addr := 1\<rparr>)) 7 = Some 0
   \<and> handleUpdate (\<lambda>frame t. t\<lparr>Track := frame # Track t\<rparr>)
        \<lparr>Labels = \<lparr>ID = 7, Name = ''Viper 7'', ACMIName = ''F-16C'', Coalition = Blue\<rparr>,
         Frame = \<lparr>Time = 1000000000000, Point = (30, 40), Altitude = 8000, Heading = 90\<rparr>\<rparr>
        ((New 0)\<lparr>contacts := [(7, 0)], next_addr := 1\<rparr>)
      = (New 0)\<lparr>contacts := [(7, 0)], next_addr := 1,
          heap := (heap (New 0))
            (0 := (heap (New 0) 0)
               \<lparr>Track := [\<lparr>Time = 1000000000000, Point = (30, 40), Altitude = 8000,
                            Heading = 90\<rparr>]\<rparr>)\<rparr>
   \<and> contacts_getByID (contacts (New 0)) 7 = None
   \<and> outputs (handleUpdate (\<lambda>frame t. t\<lparr>Track := frame # Track t\<rparr>)
        \<lparr>Labels = \<lparr>ID = 7, Name = ''Viper 7'', ACMIName = ''F-16C'', Coalition = Blue\<rparr>,
         Frame = \<lparr>Time = 1000000000000, Point = (30, 40), Altitude = 8000, Heading = 90\<rparr>\<rparr>
        (New 0)) = [Log InfoLevel ''created new trackfile'']"
proof -
  have some: "contacts_getByID (contacts ((New 0)\<lparr>contacts := [(7, 0)], next_addr := 1\<rparr>))
      (ID (Labels \<lparr>Labels = \<lparr>ID = 7, Name = ''Viper 7'', ACMIName = ''F-16C'', Coalition = Blue\<rparr>,
         Frame = \<lparr>Time = 1000000000000, Point = (30, 40), Altitude = 8000, Heading = 90\<rparr>\<rparr>))
      = Some 0"
    by (simp add: contacts_getByID_def)
  have none: "contacts_getByID (contacts (New 0))
      (ID (Labels \<lparr>Labels = \<lparr>ID = 7, Name = ''Viper 7'', ACMIName = ''F-16C'', Coalition = Blue\<rparr>,
         Frame = \<lparr>Time = 1000000000000, Point = (30, 40), Altitude = 8000, Heading = 90\<rparr>\<rparr>))
      = None"
    by (simp add: contacts_getByID_def New_def newContactDatabase_def)
  show ?thesis
    using some none
      handleUpdate_cases [of "(New 0)\<lparr>contacts := [(7, 0)], next_addr := 1\<rparr>"
        "\<lparr>Labels = \<lparr>ID = 7, Name = ''Viper 7'', ACMIName = ''F-16C'', Coalition = Blue\<rparr>,
         Frame = \<lparr>Time = 1000000000000, Point = (30, 40), Altitude = 8000, Heading = 90\<rparr>\<rparr>"
        0 "\<lambda>frame t. t\<lparr>Track := frame # Track t\<rparr>"]
      handleUpdate_cases [of "New 0"
        "\<lparr>Labels = \<lparr>ID = 7, Name = ''Viper 7'', ACMIName = ''F-16C'', Coalition = Blue\<rparr>,
         Frame = \<lparr>Time = 1000000000000, Point = (30, 40), Altitude = 8000, Heading = 90\<rparr>\<rparr>"
        0 "\<lambda>frame t. t\<lparr>Track := frame # Track t\<rparr>"]
    by (simp add: New_def NewTrackfile_def)
qed

text \<open>
  The garbage collection reads the heap and the mission time and changes neither.
\<close>

lemma gc_step_frame:
  "heap (gc_step a s) = heap s" "missionTime (gc_step a s) = missionTime s"
  by (simp_all add: gc_step_def Let_def)

lemma fold_gc_step_frame:
  "heap (fold gc_step as s) = heap s \<and> missionTime (fold gc_step as s) = missionTime s"
  by (induction as arbitrary: s) (simp_all add: gc_step_frame)

lemma fold_gc_step_contacts:
  assumes "heap s = h" and "missionTime s = m"
  shows "contacts (fold gc_step as s) =
     fold (\<lambda>a db. if Time (LastKnown (h a)) \<noteq> 0 \<and> Time (LastKnown (h a)) < m - Minute
                   then AList.delete (ID (Contact (h a))) db else db)
          as (contacts s)"
  using assms
proof (induction as arbitrary: s)
  case Nil
  show ?case by simp
next
  case (Cons a as)
  have frame: "heap (gc_step a s) = h" "missionTime (gc_step a s) = m"
    using Cons.prems by (simp_all add: gc_step_frame)
  have step: "contacts (gc_step a s) =
      (if Time (LastKnown (h a)) \<noteq> 0 \<and> Time (LastKnown (h a)) < m - Minute
       then AList.delete (ID (Contact (h a))) (contacts s) else contacts s)"
    using Cons.prems
    by (simp add: gc_step_def Let_def IsZero_time_def Before_def Add_def contacts_delete_def)
  show ?case
    using Cons.IH [OF frame] step by simp
qed

lemma fold_delete_filter:
  assumes "\<forall>(k, a) \<in> set xs. key a = k"
  shows "fold (\<lambda>a db. if P a then AList.delete (key a) db else db) (map snd xs) db
           = filter (\<lambda>(k, a). \<not> (\<exists>a'. (k, a') \<in> set xs \<and> P a')) db"
  using assms
proof (induction xs arbitrary: db)
  case Nil
  show ?case by simp
next
  case (Cons x xs)
  obtain k a where x: "x = (k, a)" by (cases x)
  have key: "key a = k" using Cons.prems x by simp
  have rest: "\<forall>(k, a) \<in> set xs. key a = k" using Cons.prems by simp
  show ?case
  proof (cases "P a")
    case True
    have "filter (\<lambda>(k', a''). \<not> (\<exists>a'. (k', a') \<in> set xs \<and> P a')) (AList.delete k db)
          = filter (\<lambda>(k', a''). \<not> (\<exists>a'. (k', a') \<in> set (x # xs) \<and> P a')) db"
      unfolding AList.delete_eq filter_filter
      by (rule filter_cong) (use True x in auto)
    then show ?thesis using True x key Cons.IH [OF rest] by simp
  next
    case False
    have "filter (\<lambda>(k', a''). \<not> (\<exists>a'. (k', a') \<in> set xs \<and> P a')) db
          = filter (\<lambda>(k', a''). \<not> (\<exists>a'. (k', a') \<in> set (x # xs) \<and> P a')) db"
      by (rule filter_cong) (use False x in auto)
    then show ?thesis using False x Cons.IH [OF rest] by simp
  qed
qed

text \<open>
  In a database whose keys are distinct and are the unit IDs of the trackfiles they
  point to, a garbage-collection tick deletes exactly the trackfiles whose most recent
  frame time is non-zero and earlier than the mission time minus one minute, and keeps
  the others, in their order.
\<close>

lemma handleGarbageCollection_contacts:
  assumes "distinct (map fst (contacts s))"
    and "\<forall>(k, a) \<in> set (contacts s). ID (Contact (heap s a)) = k"
  shows "contacts (handleGarbageCollection s) =
           filter (\<lambda>(k, a). \<not> (Time (LastKnown (heap s a)) \<noteq> 0
                                 \<and> Time (LastKnown (heap s a)) < missionTime s - Minute))
                  (contacts s)"
proof -
  let ?P = "\<lambda>a. Time (LastKnown (heap s a)) \<noteq> 0
                 \<and> Time (LastKnown (heap s a)) < missionTime s - Minute"
  let ?key = "\<lambda>a. ID (Contact (heap s a))"
  have "contacts (handleGarbageCollection s)
        = fold (\<lambda>a db. if ?P a then AList.delete (?key a) db else db)
            (map snd (contacts s)) (contacts s)"
    unfolding handleGarbageCollection_def contacts_values_def
    by (rule fold_gc_step_contacts [OF refl refl])
  also have "\<dots> = filter (\<lambda>(k, a). \<not> (\<exists>a'. (k, a') \<in> set (contacts s) \<and> ?P a'))
                      (contacts s)"
    by (rule fold_delete_filter [where key = ?key and P = ?P, OF assms(2)])
  also have "\<dots> = filter (\<lambda>(k, a). \<not> ?P a) (contacts s)"
  proof (rule filter_cong [OF refl])
    fix x assume x: "x \<in> set (contacts s)"
    obtain k a where ka: "x = (k, a)" by (cases x)
    have same: "a' = a" if "(k, a') \<in> set (contacts s)" for a'
      using assms(1) that x unfolding ka by (rule eq_key_imp_eq_value)
    have eq: "(\<exists>a'. (k, a') \<in> set (contacts s) \<and> ?P a') = ?P a"
    proof
      assume "\<exists>a'. (k, a') \<in> set (contacts s) \<and> ?P a'"
      then obtain a' where a': "(k, a') \<in> set (contacts s)" "?P a'" by blast
      from same [OF a'(1)] a'(2) show "?P a" by simp
    next
      assume "?P a"
      with x ka show "\<exists>a'. (k, a') \<in> set (contacts s) \<and> ?P a'" by blast
    qed
    show "(case x of (k, a) \<Rightarrow> \<not> (\<exists>a'. (k, a') \<in> set (contacts s) \<and> ?P a'))
             = (case x of (k, a) \<Rightarrow> \<not> ?P a)"
      unfolding ka prod.case eq by (rule refl)
  qed
  finally show ?thesis .
qed

text \<open>
  All that a garbage-collection tick emits is one log line for each deleted trackfile.
\<close>

lemma handleGarbageCollection_outputs:
  "\<exists>n. outputs (handleGarbageCollection s)
        = outputs s @ replicate n (Log InfoLevel ''removed aged out trackfile'')"
proof -
  have "\<exists>n. outputs (fold gc_step as s)
        = outputs s @ replicate n (Log InfoLevel ''removed aged out trackfile'')" for as
  proof (induction as arbitrary: s)
    case Nil
    show ?case by simp
  next
    case (Cons a as)
    obtain n where n: "outputs (fold gc_step as (gc_step a s))
        = outputs (gc_step a s) @ replicate n (Log InfoLevel ''removed aged out trackfile'')"
      using Cons.IH by blast
    show ?case
    proof (cases "outputs (gc_step a s) = outputs s")
      case True
      then show ?thesis using n by auto
    next
      case False
      then have "outputs (gc_step a s)
          = outputs s @ [Log InfoLevel ''removed aged out trackfile'']"
        by (simp add: gc_step_def Let_def split: if_splits)
      then have "outputs (fold gc_step (a # as) s)
          = outputs s @ replicate (Suc n) (Log InfoLevel ''removed aged out trackfile'')"
        using n by simp
      then show ?thesis by blast
    qed
  qed
  then show ?thesis by (simp add: handleGarbageCollection_def)
qed

text \<open>
  C3: on a garbage-collection tick every aged-out trackfile is deleted and the registered
  removal callback is invoked for it. The deletion holds (lemma
  \<open>handleGarbageCollection_contacts\<close>); the invocation does not. With a removal callback
  registered and trackfile 2 last seen 120 seconds before the mission time, the tick
  deletes the trackfile and writes its log line, and the callback is not invoked: the
  emitted effects hold no \<open>Call\<close>.
\<close>

theorem handleGarbageCollection_no_removalCallback:
  "contacts (handleGarbageCollection
      \<lparr>missionTime = 1120000000000, bullseyes = Map.empty, contacts = [(2, 0)],
       fadedCallback = None, removalCallback = Some ''onRemoved'', center = zero_Point,
       mandatoryThreatRadius = 0,
       heap = (\<lambda>_. \<lparr>Contact = \<lparr>ID = 2, Name = ''Viper 2'', ACMIName = ''F-16C'',
                                Coalition = Blue\<rparr>,
                     Track = [\<lparr>Time = 1000000000000, Point = (30, 40), Altitude = 8000,
                               Heading = 90\<rparr>]\<rparr>),
       next_addr = 1, outputs = []\<rparr>) = []
   \<and> outputs (handleGarbageCollection
      \<lparr>missionTime = 1120000000000, bullseyes = Map.empty, contacts = [(2, 0)],
       fadedCallback = None, removalCallback = Some ''onRemoved'', center = zero_Point,
       mandatoryThreatRadius = 0,
       heap = (\<lambda>_. \<lparr>Contact = \<lparr>ID = 2, Name = ''Viper 2'', ACMIName = ''F-16C'',
                                Coalition = Blue\<rparr>,
                     Track = [\<lparr>Time = 1000000000000, Point = (30, 40), Altitude = 8000,
                               Heading = 90\<rparr>]\<rparr>),
       next_addr = 1, outputs = []\<rparr>) = [Log InfoLevel ''removed aged out trackfile'']"
  by (simp add: handleGarbageCollection_def contacts_values_def gc_step_def Let_def
      LastKnown_def IsZero_time_def Before_def Add_def Minute_def Second_def
      contacts_delete_def)

section \<open>Properties of the bullseyes and the declination\<close>

lemma bullseyes_handleUpdate: "bullseyes (handleUpdate U u s) = bullseyes s"
  by (simp add: handleUpdate_def Let_def split: option.splits)

lemma bullseyes_gc_step: "bullseyes (gc_step a s) = bullseyes s"
  by (simp add: gc_step_def Let_def)

lemma bullseyes_fold_gc_step: "bullseyes (fold gc_step as s) = bullseyes s"
  by (induction as arbitrary: s) (simp_all add: bullseyes_gc_step)

lemma bullseyes_handleGarbageCollection: "bullseyes (handleGarbageCollection s) = bullseyes s"
  by (simp add: handleGarbageCollection_def bullseyes_fold_gc_step)

lemma SetBullseye_succeeds:
  assumes "bullseyes s c \<noteq> Some AnyOther"
  shows "\<exists>s'. SetBullseye p c s = Inr s' \<and> bullseyes s' = (bullseyes s)(c \<mapsto> AnyPoint p)"
proof (cases "bullseyes s c")
  case None
  then show ?thesis by (simp add: SetBullseye_def Bullseye_def)
next
  case (Some v)
  with assms show ?thesis by (cases v) (simp_all add: SetBullseye_def Bullseye_def)
qed

lemma history_keeps_unset:
  assumes "\<forall>c'. bullseyes s c' \<noteq> Some AnyOther"
    and "bullseyes s c = None"
    and "\<forall>p. SetBullseye_call p c \<notin> set es"
  shows "\<exists>s'. history U es s = Inr s' \<and> bullseyes s' c = None"
  using assms
proof (induction es arbitrary: s)
  case Nil
  then show ?case by simp
next
  case (Cons e es)
  have rest: "\<forall>p. SetBullseye_call p c \<notin> set es"
    using Cons.prems(3) by simp
  show ?case
  proof (cases e)
    case (starts x)
    then show ?thesis using Cons.IH [OF _ _ rest] Cons.prems(1,2) by simp
  next
    case (updates u)
    then show ?thesis
      using Cons.IH [OF _ _ rest, of "handleUpdate U u s"] Cons.prems(1,2)
      by (simp add: bullseyes_handleUpdate)
  next
    case gcTicker
    then show ?thesis
      using Cons.IH [OF _ _ rest, of "handleGarbageCollection s"] Cons.prems(1,2)
      by (simp add: bullseyes_handleGarbageCollection)
  next
    case (SetBullseye_call p c')
    have neq: "c' \<noteq> c"
    proof
      assume "c' = c"
      then have "SetBullseye_call p c \<in> set (e # es)" using SetBullseye_call by simp
      with Cons.prems(3) show False by blast
    qed
    from Cons.prems(1) have "bullseyes s c' \<noteq> Some AnyOther" by simp
    from SetBullseye_succeeds [OF this, of p] obtain s1 where
      s1: "SetBullseye p c' s = Inr s1" "bullseyes s1 = (bullseyes s)(c' \<mapsto> AnyPoint p)"
      by blast
    have "\<forall>d. bullseyes s1 d \<noteq> Some AnyOther" using s1(2) Cons.prems(1) by simp
    moreover have "bullseyes s1 c = None" using s1(2) neq Cons.prems(2) by simp
    ultimately obtain s' where "history U es s1 = Inr s'" "bullseyes s' c = None"
      using Cons.IH [OF _ _ rest, of s1] by blast
    then show ?thesis using SetBullseye_call s1(1) by simp
  next
    case (SetMissionTime_call t)
    then show ?thesis
      using Cons.IH [OF _ _ rest, of "SetMissionTime t s"] Cons.prems(1,2)
      by (simp add: SetMissionTime_def)
  qed
qed

text \<open>
  C7: for a coalition for which \<open>SetBullseye\<close> has never been called, in any history of
  a new scope, no step panics and \<open>Bullseye\<close> returns the zero point (0,0), without a
  panic.
\<close>

theorem Bullseye_never_set:
  assumes "\<forall>p. SetBullseye_call p c \<notin> set es"
  shows "\<exists>s. history Update es (New radius) = Inr s \<and> Bullseye s c = Inr zero_Point"
proof -
  have "\<forall>c'. bullseyes (New radius) c' \<noteq> Some AnyOther" "bullseyes (New radius) c = None"
    by (simp_all add: New_def)
  from history_keeps_unset [OF this assms] obtain s where
    "history Update es (New radius) = Inr s" "bullseyes s c = None" by blast
  then show ?thesis by (simp add: Bullseye_def)
qed

theorem Bullseye_never_set_witness:
  "(\<forall>p. SetBullseye_call p Red \<notin>
        set [SetBullseye_call (30, 40) Blue, SetMissionTime_call 1000000000000, gcTicker])
   \<and> (\<exists>s. history (\<lambda>frame t. t\<lparr>Track := frame # Track t\<rparr>)
              [SetBullseye_call (30, 40) Blue, SetMissionTime_call 1000000000000, gcTicker]
              (New 0) = Inr s
          \<and> Bullseye s Red = Inr zero_Point)"
proof -
  have h: "\<forall>p. SetBullseye_call p Red \<notin>
        set [SetBullseye_call (30, 40) Blue, SetMissionTime_call 1000000000000, gcTicker]"
    by simp
  show ?thesis
    using h Bullseye_never_set [OF h, of "\<lambda>frame t. t\<lparr>Track := frame # Track t\<rparr>" 0]
    by blast
qed

text \<open>
  C9: in a scope whose entry for coalition \<open>c\<close> is absent or a point, \<open>SetBullseye p c\<close>
  returns, and right after it \<open>Bullseye c\<close> returns \<open>p\<close> while the bullseye of every
  other coalition is what it was. A bullseye set to (0,0) reads as the bullseye of a new
  scope does; set for a coalition that had none, it changes no reading of any coalition
  and writes no log line.
\<close>

theorem SetBullseye_then_Bullseye:
  assumes "bullseyes s c \<noteq> Some AnyOther"
  shows "\<exists>s'. SetBullseye p c s = Inr s'
           \<and> Bullseye s' c = Inr p
           \<and> (\<forall>c'. c' \<noteq> c \<longrightarrow> Bullseye s' c' = Bullseye s c')
           \<and> (p = zero_Point \<longrightarrow> Bullseye s' c = Bullseye (New radius) c)
           \<and> (p = zero_Point \<and> bullseyes s c = None \<longrightarrow>
                (\<forall>c'. Bullseye s' c' = Bullseye s c') \<and> outputs s' = outputs s)"
proof -
  from SetBullseye_succeeds [OF assms, of p] obtain s' where
    s': "SetBullseye p c s = Inr s'" "bullseyes s' = (bullseyes s)(c \<mapsto> AnyPoint p)"
    by blast
  have "Bullseye s' c = Inr p" using s'(2) by (simp add: Bullseye_def)
  moreover have "\<forall>c'. c' \<noteq> c \<longrightarrow> Bullseye s' c' = Bullseye s c'"
    using s'(2) by (simp add: Bullseye_def)
  moreover have "p = zero_Point \<longrightarrow> Bullseye s' c = Bullseye (New radius) c"
    using s'(2) by (simp add: Bullseye_def New_def)
  moreover have "p = zero_Point \<and> bullseyes s c = None \<longrightarrow>
      (\<forall>c'. Bullseye s' c' = Bullseye s c') \<and> outputs s' = outputs s"
    using s'(1,2) by (auto simp: Bullseye_def SetBullseye_def zero_Point_def Lon_def Lat_def)
  ultimately show ?thesis using s'(1) by blast
qed

theorem SetBullseye_then_Bullseye_witness:
  "bullseyes (New 0) Blue \<noteq> Some AnyOther
   \<and> (\<exists>s'. SetBullseye (30, 40) Blue (New 0) = Inr s'
          \<and> Bullseye s' Blue = Inr (30, 40)
          \<and> Bullseye s' Red = Bullseye (New 0) Red)
   \<and> (\<exists>s'. SetBullseye zero_Point Blue (New 0) = Inr s'
          \<and> Bullseye s' Blue = Bullseye (New 0) Blue
          \<and> outputs s' = outputs (New 0))"
proof -
  have h: "bullseyes (New 0) Blue \<noteq> Some AnyOther" by (simp add: New_def)
  have n: "bullseyes (New 0) Blue = None" by (simp add: New_def)
  show ?thesis
    using h n SetBullseye_then_Bullseye [OF h, of "(30, 40)" 0]
      SetBullseye_then_Bullseye [OF h, of zero_Point 0]
    by (metis Coalition.distinct(1))
qed

text \<open>
  C6: if the geomagnetic model returns an error for the point at the mission time,
  \<open>Declination\<close> writes an error log line and returns a declination of exactly 0; if the
  model succeeds, \<open>Declination\<close> returns the model's value and writes nothing.
\<close>

theorem Declination_fallback:
  "(model p (missionTime s) = Inl err \<longrightarrow>
      Declination model p s =
        (0, s\<lparr>outputs := outputs s @ [Log ErrorLevel ''failed to get declination'']\<rparr>))
   \<and> (model p (missionTime s) = Inr d \<longrightarrow> Declination model p s = (d, s))"
  by (simp add: Declination_def bearings_Declination_def)

theorem Declination_fallback_witness:
  "Declination (\<lambda>p t. Inl (errorString ''date out of range'')) (30, 40) (New 0)
     = (0, (New 0)\<lparr>outputs := outputs (New 0) @ [Log ErrorLevel ''failed to get declination'']\<rparr>)
   \<and> Declination (\<lambda>p t. Inr 6) (30, 40) (New 0) = (6, New 0)"
  using Declination_fallback [of "\<lambda>p t. Inl (errorString ''date out of range'')" "(30, 40)"
      "New 0" "errorString ''date out of range''" 0]
    Declination_fallback [of "\<lambda>p t. Inr 6" "(30, 40)" "New 0" "errorString []" 6]
  by simp

section \<open>Properties of the SRS client\<close>

lemma fold_append1:
  "fold (\<lambda>x acc. append1 acc (f x)) xs (Slice ys) = Slice (ys @ map f xs)"
  by (induction xs arbitrary: ys) (simp_all add: append1_def)

text \<open>
  C10: \<open>Frequencies\<close> returns a slice that is not nil and holds one entry for each radio
  of the data client's radio list, in the list's order, each the radio's frequency in
  hertz with its modulation; with no radio the slice is empty, not nil.
\<close>

theorem Frequencies_map:
  "Frequencies Hertz c =
     Slice (map (\<lambda>radio. \<lparr>Frequency = Radio.Frequency radio * Hertz,
                          Modulation = Radio.Modulation radio\<rparr>)
                (elems (Radios (RadioInfo (Info (dataClient c))))))
   \<and> Frequencies Hertz c \<noteq> NilSlice
   \<and> (elems (Radios (RadioInfo (Info (dataClient c)))) = [] \<longrightarrow>
        Frequencies Hertz c = Slice [])"
  by (simp add: Frequencies_def make0_def fold_append1)

theorem Frequencies_map_witness:
  "Frequencies 1
     \<lparr>dataClient = \<lparr>Info = \<lparr>Name = ''GCI'', RadioInfo = \<lparr>Radios = NilSlice\<rparr>\<rparr>\<rparr>,
      audioClient = \<lparr>LastPing = 0\<rparr>\<rparr> = Slice []
   \<and> Frequencies 1
     \<lparr>dataClient = \<lparr>Info = \<lparr>Name = ''GCI'', RadioInfo = \<lparr>Radios =
        Slice [\<lparr>Radio.Frequency = 251000000, Radio.Modulation = AM\<rparr>,
               \<lparr>Radio.Frequency = 30000000, Radio.Modulation = FM\<rparr>]\<rparr>\<rparr>\<rparr>,
      audioClient = \<lparr>LastPing = 0\<rparr>\<rparr>
     = Slice [\<lparr>Frequency = 251000000, Modulation = AM\<rparr>,
              \<lparr>Frequency = 30000000, Modulation = FM\<rparr>]"
  using Frequencies_map [of 1
      "\<lparr>dataClient = \<lparr>Info = \<lparr>Name = ''GCI'', RadioInfo = \<lparr>Radios = NilSlice\<rparr>\<rparr>\<rparr>,
        audioClient = \<lparr>LastPing = 0\<rparr>\<rparr>"]
    Frequencies_map [of 1
      "\<lparr>dataClient = \<lparr>Info = \<lparr>Name = ''GCI'', RadioInfo = \<lparr>Radios =
          Slice [\<lparr>Radio.Frequency = 251000000, Radio.Modulation = AM\<rparr>,
                 \<lparr>Radio.Frequency = 30000000, Radio.Modulation = FM\<rparr>]\<rparr>\<rparr>\<rparr>,
        audioClient = \<lparr>LastPing = 0\<rparr>\<rparr>"]
  by simp

lemma Since_gt_Minute: "Minute < Since now lastPing \<longleftrightarrow> 60000000000 < now - lastPing"
  unfolding Since_def Sub_def Minute_def Second_def maxDuration_def minDuration_def
  by (simp add: max_def min_def)

text \<open>
  C4, amended: at a tick of the supervisor's ticker, \<open>Run\<close> returns the error "stopped
  receiving pings from SRS data client" when more than 60 seconds have passed since
  \<open>LastPing\<close>; when at most 60 seconds have passed, the loop goes on with the next case.
\<close>

theorem Run_liveness:
  "(now - lastPing > 60000000000 \<longrightarrow>
      Run (ticker_C now lastPing # rest) =
        Some (errors_New ''stopped receiving pings from SRS data client''))
   \<and> (now - lastPing \<le> 60000000000 \<longrightarrow> Run (ticker_C now lastPing # rest) = Run rest)"
  by (simp add: Since_gt_Minute)

theorem Run_liveness_witness:
  "Run (ticker_C 66000000000 5000000000 # [ctx_Done (errorString ''context canceled'')])
     = Some (errors_New ''stopped receiving pings from SRS data client'')
   \<and> Run (ticker_C 65000000000 5000000000 # []) = Run []"
  using Run_liveness [of 66000000000 5000000000 "[ctx_Done (errorString ''context canceled'')]"]
    Run_liveness [of 65000000000 5000000000 "[]"]
  by simp

text \<open>
  The claim as stated fails when exactly 60 seconds have passed since the last ping: the
  tick returns no error, and \<open>Run\<close> has not returned when the cases end.
\<close>

theorem Run_liveness_counterexample:
  "61000000000 - 1000000000 = 60 * Second
   \<and> Run [ticker_C 61000000000 1000000000] = None"
  by (simp add: Since_gt_Minute Second_def)

lemma Run_quiet_prefix: "list_all quiet_tick pre \<Longrightarrow> Run (pre @ rest) = Run rest"
proof (induction pre)
  case Nil
  show ?case by simp
next
  case (Cons c pre)
  then show ?case by (cases c) (simp_all add: quiet_tick_def)
qed

text \<open>
  C8, amended: \<open>Run\<close> has three termination causes, not two. After any number of ticks
  that find a recent ping (during which it does not return), a cancelled context makes
  \<open>Run\<close> return an error that wraps \<open>ctx.Err()\<close>; an error received from a subtask makes
  it return an error that wraps that error; and a tick that finds the last ping more than
  60 seconds old makes it return the supervisor's own liveness error, which wraps nothing.
  The three returned errors differ pairwise, in their messages already, whatever the
  wrapped errors are.
\<close>

theorem Run_three_causes:
  assumes "list_all quiet_tick pre"
  shows "Run pre = None
       \<and> Run (pre @ ctx_Done ctx_Err # rest) =
           Some (fmt_Errorf_w ''stopping client due to context cancelation: '' ctx_Err)
       \<and> Run (pre @ errorChan_recv err # rest') = Some (fmt_Errorf_w ''client error: '' err)
       \<and> (60000000000 < now - lastPing \<longrightarrow>
            Run (pre @ ticker_C now lastPing # rest'') =
              Some (errors_New ''stopped receiving pings from SRS data client''))
       \<and> Unwrap (fmt_Errorf_w ''stopping client due to context cancelation: '' ctx_Err)
           = Some ctx_Err
       \<and> Unwrap (fmt_Errorf_w ''client error: '' err) = Some err
       \<and> Unwrap (errors_New ''stopped receiving pings from SRS data client'') = None
       \<and> Error (fmt_Errorf_w ''stopping client due to context cancelation: '' ctx_Err)
           \<noteq> Error (fmt_Errorf_w ''client error: '' err)
       \<and> Error (fmt_Errorf_w ''stopping client due to context cancelation: '' ctx_Err)
           \<noteq> Error (errors_New ''stopped receiving pings from SRS data client'')
       \<and> Error (fmt_Errorf_w ''client error: '' err)
           \<noteq> Error (errors_New ''stopped receiving pings from SRS data client'')"
proof -
  have none: "Run pre = None"
    using Run_quiet_prefix [OF assms, of "[]"] by simp
  have ctx: "Run (pre @ ctx_Done ctx_Err # rest) =
      Some (fmt_Errorf_w ''stopping client due to context cancelation: '' ctx_Err)"
    by (simp add: Run_quiet_prefix [OF assms])
  have sub: "Run (pre @ errorChan_recv err # rest') = Some (fmt_Errorf_w ''client error: '' err)"
    by (simp add: Run_quiet_prefix [OF assms])
  have live: "60000000000 < now - lastPing \<longrightarrow>
      Run (pre @ ticker_C now lastPing # rest'') =
        Some (errors_New ''stopped receiving pings from SRS data client'')"
    by (simp add: Run_quiet_prefix [OF assms] Since_gt_Minute)
  have unwrap: "Unwrap (fmt_Errorf_w ''stopping client due to context cancelation: '' ctx_Err)
        = Some ctx_Err"
    "Unwrap (fmt_Errorf_w ''client error: '' err) = Some err"
    "Unwrap (errors_New ''stopped receiving pings from SRS data client'') = None"
    by (simp_all add: fmt_Errorf_w_def errors_New_def)
  have msgs: "Error (fmt_Errorf_w ''stopping client due to context cancelation: '' ctx_Err)
        \<noteq> Error (fmt_Errorf_w ''client error: '' err)"
    "Error (fmt_Errorf_w ''stopping client due to context cancelation: '' ctx_Err)
        \<noteq> Error (errors_New ''stopped receiving pings from SRS data client'')"
    "Error (fmt_Errorf_w ''client error: '' err)
        \<noteq> Error (errors_New ''stopped receiving pings from SRS data client'')"
    by (simp_all add: fmt_Errorf_w_def errors_New_def)
  from none ctx sub live unwrap msgs show ?thesis by blast
qed

theorem Run_three_causes_witness:
  "list_all quiet_tick [ticker_C 5000000000 0, ticker_C 10000000000 6000000000]
   \<and> Run [ticker_C 5000000000 0, ticker_C 10000000000 6000000000] = None
   \<and> Run ([ticker_C 5000000000 0, ticker_C 10000000000 6000000000]
           @ ctx_Done (errorString ''context canceled'') # [])
      = Some (wrapError ''stopping client due to context cancelation: context canceled''
                (errorString ''context canceled''))
   \<and> Run ([ticker_C 5000000000 0, ticker_C 10000000000 6000000000]
           @ errorChan_recv (errorString ''connection reset'') # [])
      = Some (wrapError ''client error: connection reset'' (errorString ''connection reset''))
   \<and> Run ([ticker_C 5000000000 0, ticker_C 10000000000 6000000000]
           @ ticker_C 71000000000 10000000000 # [])
      = Some (errorString ''stopped receiving pings from SRS data client'')"
proof -
  have q: "list_all quiet_tick [ticker_C 5000000000 0, ticker_C 10000000000 6000000000]"
    by (simp add: quiet_tick_def Since_def Sub_def Minute_def Second_def
        maxDuration_def minDuration_def)
  show ?thesis
    using q Run_three_causes [OF q, of "errorString ''context canceled''" "[]"
        "errorString ''connection reset''" "[]" 71000000000 10000000000 "[]"]
    by (simp add: fmt_Errorf_w_def errors_New_def)
qed

text \<open>
  The claim as stated fails on the liveness path: the error \<open>Run\<close> returns for a lost
  ping is not received from a subtask and wraps no error, and it is neither of the two
  wrapped forms.
\<close>

theorem Run_liveness_unwrapped_counterexample:
  "Run [ticker_C 71000000000 10000000000]
     = Some (errorString ''stopped receiving pings from SRS data client'')
   \<and> Unwrap (errorString ''stopped receiving pings from SRS data client'') = None
   \<and> errorString ''stopped receiving pings from SRS data client''
       \<noteq> fmt_Errorf_w ''client error: ''
            (errorString ''stopped receiving pings from SRS data client'')"
  by (simp add: Since_gt_Minute errors_New_def fmt_Errorf_w_def)

end
